theory Spec2Isabelle
  imports Main "HOL-Library.Word"
begin

unbundle bit_operations_syntax

section \<open>Renderer state cache\<close>

text \<open>
  Objects owned elsewhere (buffers, textures, programs, targets, contexts, materials,
  meshes) are referred to by address. An address is a natural number and \<open>nullptr\<close> is
  address 0. What the code reads through such a pointer is an accessor of an environment
  record, so that two pointers are equal exactly when their addresses are.
\<close>

type_synonym ptr = nat

definition nullptr :: ptr where
  "nullptr = 0"

subsection \<open>Enumerations\<close>

text \<open>\<open>enum UpdateFlags\<close>: the bits of \<open>s_updateFlags\<close>.\<close>

definition Update_None :: "32 word" where "Update_None = 0"
definition Update_Matrices :: "32 word" where "Update_Matrices = 0x1"
definition Update_Program :: "32 word" where "Update_Program = 0x2"
definition Update_Textures :: "32 word" where "Update_Textures = 0x4"
definition Update_VAO :: "32 word" where "Update_VAO = 0x8"

text \<open>
  \<open>nzMatrixType\<close>. The enumeration is declared outside the source file at hand; the
  twelve enumerators are the ones the two \<open>switch\<close> statements of \<open>SetMatrix\<close> and
  \<open>UpdateMatrix\<close> name, in the order base, combined, inverted.
\<close>

datatype nzMatrixType =
    nzMatrixType_Projection
  | nzMatrixType_View
  | nzMatrixType_World
  | nzMatrixType_ViewProj
  | nzMatrixType_WorldView
  | nzMatrixType_WorldViewProj
  | nzMatrixType_InvProjection
  | nzMatrixType_InvView
  | nzMatrixType_InvViewProj
  | nzMatrixType_InvWorld
  | nzMatrixType_InvWorldView
  | nzMatrixType_InvWorldViewProj

text \<open>The uniforms \<open>EnsureStateUpdate\<close> resolves by semantic name.\<close>

datatype nzShaderUniform =
    nzShaderUniform_ProjMatrix
  | nzShaderUniform_ViewMatrix
  | nzShaderUniform_WorldMatrix
  | nzShaderUniform_ViewProjMatrix
  | nzShaderUniform_WorldViewMatrix
  | nzShaderUniform_WorldViewProjMatrix
  | nzShaderUniform_InvProjMatrix
  | nzShaderUniform_InvViewMatrix
  | nzShaderUniform_InvViewProjMatrix
  | nzShaderUniform_InvWorldMatrix
  | nzShaderUniform_InvWorldViewMatrix
  | nzShaderUniform_InvWorldViewProjMatrix
  | nzShaderUniform_InvTargetSize
  | nzShaderUniform_TargetSize

text \<open>The renderer's \<open>enum ResourceType\<close>, the tag a listener is registered with.\<close>

definition ResourceType_Context :: int where "ResourceType_Context = 0"
definition ResourceType_IndexBuffer :: int where "ResourceType_IndexBuffer = 1"
definition ResourceType_VertexBuffer :: int where "ResourceType_VertexBuffer = 2"
definition ResourceType_VertexDeclaration :: int where "ResourceType_VertexDeclaration = 3"

subsection \<open>State\<close>

text \<open>\<open>struct MatrixUnit\<close>, over a matrix type \<open>'m\<close> (\<open>NzMatrix4f\<close>).\<close>

record 'm MatrixUnit =
  matrix :: 'm
  updated :: bool
  location :: int

text \<open>\<open>struct TextureUnit\<close>, over a sampler type \<open>'s\<close> (\<open>NzTextureSampler\<close>).\<close>

record 's TextureUnit =
  sampler :: 's
  texture :: ptr
  samplerUpdated :: bool
  textureUpdated :: bool

text \<open>
  \<open>VAO_Key\<close> is the tuple (index buffer, vertex buffer, vertex declaration, instancing
  declaration). \<open>VAO_Map\<close> maps a context to a map from keys to handles; both maps are
  association lists with at most one entry per key.
\<close>

type_synonym VAO_Key = "ptr \<times> ptr \<times> ptr \<times> ptr"
type_synonym VAO_Map = "(ptr \<times> (VAO_Key \<times> nat) list) list"

text \<open>
  The file-level variables of the renderer. \<open>s_dirtyTextureUnits\<close> is a
  \<open>std::set<unsigned int>\<close>, kept as the ascending list of its elements (the order in
  which the set is iterated).
\<close>

record ('m, 's) renderer =
  s_vaos :: VAO_Map
  s_dirtyTextureUnits :: "nat list"
  s_textureUnits :: "'s TextureUnit list"
  s_currentVAO :: nat
  s_matrices :: "nzMatrixType \<Rightarrow> 'm MatrixUnit"
  s_targetSize :: "nat \<times> nat"
  s_updateFlags :: "32 word"
  s_indexBuffer :: ptr
  s_target :: ptr
  s_program :: ptr
  s_vertexBuffer :: ptr
  s_instancingDeclaration :: ptr
  s_instancing :: bool
  s_useSamplerObjects :: bool
  s_useVertexArrayObjects :: bool
  s_maxTextureUnit :: nat

text \<open>
  What the renderer reads from its collaborators, none of which is defined in the source
  file at hand. \<open>mat_GetInverse src dst\<close> stands for \<open>src.GetInverse(&dst)\<close>: it returns
  the success flag and what the destination holds afterwards. \<open>sampler_UseMipmaps\<close>
  returns the flag of \<open>NzTextureSampler::UseMipmaps\<close> and the sampler afterwards.
  \<open>gl_GenVertexArrays_result\<close> is the handle \<open>glGenVertexArrays\<close> hands out.
\<close>

record ('m, 's) renderer_env =
  ctx_GetCurrent :: ptr
  ib_IsHardware :: "ptr \<Rightarrow> bool"
  vb_IsHardware :: "ptr \<Rightarrow> bool"
  vb_GetVertexDeclaration :: "ptr \<Rightarrow> ptr"
  prog_IsCompiled :: "ptr \<Rightarrow> bool"
  prog_GetUniformLocation :: "ptr \<Rightarrow> nzShaderUniform \<Rightarrow> int"
  target_IsRenderable :: "ptr \<Rightarrow> bool"
  target_Activate :: "ptr \<Rightarrow> bool"
  target_GetWidth :: "ptr \<Rightarrow> nat"
  target_GetHeight :: "ptr \<Rightarrow> nat"
  tex_HasMipmaps :: "ptr \<Rightarrow> bool"
  sampler_UseMipmaps :: "bool \<Rightarrow> 's \<Rightarrow> bool \<times> 's"
  gl_GenVertexArrays_result :: nat
  mat_mul :: "'m \<Rightarrow> 'm \<Rightarrow> 'm"
  mat_ConcatenateAffine :: "'m \<Rightarrow> 'm \<Rightarrow> 'm"
  mat_Concatenate :: "'m \<Rightarrow> 'm \<Rightarrow> 'm"
  mat_GetInverse :: "'m \<Rightarrow> 'm \<Rightarrow> bool \<times> 'm"

subsection \<open>Setters\<close>

text \<open>
  The checks under \<open>NAZARA_RENDERER_SAFE\<close> and \<open>NAZARA_DEBUG\<close> are modelled as compiled
  in. A reported error leaves no trace in the state.
\<close>

definition SetIndexBuffer ::
  "('m, 's) renderer_env \<Rightarrow> ptr \<Rightarrow> ('m, 's) renderer \<Rightarrow> ('m, 's) renderer" where
  "SetIndexBuffer env indexBuffer s =
     (if indexBuffer \<noteq> nullptr \<and> \<not> ib_IsHardware env indexBuffer then s
      else if s_indexBuffer s \<noteq> indexBuffer
      then s\<lparr>s_indexBuffer := indexBuffer, s_updateFlags := s_updateFlags s OR Update_VAO\<rparr>
      else s)"

definition SetVertexBuffer ::
  "('m, 's) renderer_env \<Rightarrow> ptr \<Rightarrow> ('m, 's) renderer \<Rightarrow> ('m, 's) renderer" where
  "SetVertexBuffer env vertexBuffer s =
     (if vertexBuffer \<noteq> nullptr \<and> \<not> vb_IsHardware env vertexBuffer then s
      else if vertexBuffer \<noteq> nullptr \<and> s_vertexBuffer s \<noteq> vertexBuffer
      then s\<lparr>s_vertexBuffer := vertexBuffer, s_updateFlags := s_updateFlags s OR Update_VAO\<rparr>
      else s)"

definition SetShaderProgram ::
  "('m, 's) renderer_env \<Rightarrow> ptr \<Rightarrow> ('m, 's) renderer \<Rightarrow> ('m, 's) renderer" where
  "SetShaderProgram env program s =
     (if program \<noteq> nullptr \<and> \<not> prog_IsCompiled env program then s
      else if s_program s \<noteq> program
      then s\<lparr>s_program := program, s_updateFlags := s_updateFlags s OR Update_Program\<rparr>
      else s)"

definition EnableInstancing :: "bool \<Rightarrow> ('m, 's) renderer \<Rightarrow> ('m, 's) renderer" where
  "EnableInstancing instancing s =
     (if s_instancing s \<noteq> instancing
      then s\<lparr>s_updateFlags := s_updateFlags s OR Update_VAO, s_instancing := instancing\<rparr>
      else s)"

text \<open>
  \<open>SetTarget\<close>: the old target is dropped before the new one is checked, so a failed
  activation leaves no target bound.
\<close>

definition SetTarget ::
  "('m, 's) renderer_env \<Rightarrow> ptr \<Rightarrow> ('m, 's) renderer \<Rightarrow> bool \<times> ('m, 's) renderer" where
  "SetTarget env target s =
     (if s_target s = target then (True, s)
      else
        let s1 = (if s_target s \<noteq> nullptr then s\<lparr>s_target := nullptr\<rparr> else s)
        in if target \<noteq> nullptr
           then (if \<not> target_IsRenderable env target then (False, s1)
                 else if \<not> target_Activate env target then (False, s1)
                 else (True, s1\<lparr>s_target := target\<rparr>))
           else (True, s1))"

text \<open>\<open>std::set::insert\<close> on the ascending list of elements.\<close>

definition set_insert :: "nat \<Rightarrow> nat list \<Rightarrow> nat list" where
  "set_insert x xs = (if x \<in> set xs then xs else insort x xs)"

text \<open>
  \<open>SetTexture\<close>. The unit is a \<open>nzUInt8\<close>. The range check is against
  \<open>s_maxTextureUnit\<close>, which is the size \<open>Initialize\<close> gives \<open>s_textureUnits\<close>.
\<close>

definition SetTexture ::
  "('m, 's) renderer_env \<Rightarrow> 8 word \<Rightarrow> ptr \<Rightarrow> ('m, 's) renderer \<Rightarrow> ('m, 's) renderer" where
  "SetTexture env unit tex s =
     (let u = unat unit in
      if u \<ge> s_maxTextureUnit s then s
      else if texture (s_textureUnits s ! u) \<noteq> tex
      then
        let tu1 = (s_textureUnits s ! u)\<lparr>texture := tex, textureUpdated := False\<rparr>;
            tu2 = (if tex \<noteq> nullptr
                   then (case sampler_UseMipmaps env (tex_HasMipmaps env tex) (sampler tu1) of
                           (changed, smp) \<Rightarrow>
                             if changed then tu1\<lparr>sampler := smp, samplerUpdated := False\<rparr>
                             else tu1\<lparr>sampler := smp\<rparr>)
                   else tu1)
        in s\<lparr>s_textureUnits := (s_textureUnits s)[u := tu2],
             s_dirtyTextureUnits := set_insert u (s_dirtyTextureUnits s),
             s_updateFlags := s_updateFlags s OR Update_Textures\<rparr>
      else s)"

definition SetTextureSampler ::
  "('m, 's) renderer_env \<Rightarrow> 8 word \<Rightarrow> 's \<Rightarrow> ('m, 's) renderer \<Rightarrow> ('m, 's) renderer" where
  "SetTextureSampler env unit smp s =
     (let u = unat unit in
      if u \<ge> s_maxTextureUnit s then s
      else
        let tu1 = (s_textureUnits s ! u)\<lparr>sampler := smp, samplerUpdated := False\<rparr>;
            tu2 = (if texture tu1 \<noteq> nullptr
                   then tu1\<lparr>sampler :=
                          snd (sampler_UseMipmaps env (tex_HasMipmaps env (texture tu1)) (sampler tu1))\<rparr>
                   else tu1)
        in s\<lparr>s_textureUnits := (s_textureUnits s)[u := tu2],
             s_dirtyTextureUnits := set_insert u (s_dirtyTextureUnits s),
             s_updateFlags := s_updateFlags s OR Update_Textures\<rparr>)"

subsection \<open>The matrix slots\<close>

definition invalidate ::
  "nzMatrixType \<Rightarrow> (nzMatrixType \<Rightarrow> 'm MatrixUnit) \<Rightarrow> (nzMatrixType \<Rightarrow> 'm MatrixUnit)" where
  "invalidate t ms = ms(t := (ms t)\<lparr>updated := False\<rparr>)"

text \<open>The \<open>switch\<close> of \<open>SetMatrix\<close>, case by case, in the order of the source.\<close>

fun invalidated_by :: "nzMatrixType \<Rightarrow> nzMatrixType list" where
  "invalidated_by nzMatrixType_Projection =
     [nzMatrixType_InvProjection, nzMatrixType_InvViewProj, nzMatrixType_InvWorldViewProj,
      nzMatrixType_ViewProj, nzMatrixType_WorldViewProj]"
| "invalidated_by nzMatrixType_View =
     [nzMatrixType_InvView, nzMatrixType_InvViewProj, nzMatrixType_InvWorld,
      nzMatrixType_InvWorldViewProj, nzMatrixType_ViewProj, nzMatrixType_World,
      nzMatrixType_WorldViewProj]"
| "invalidated_by nzMatrixType_World =
     [nzMatrixType_InvWorld, nzMatrixType_InvWorldView, nzMatrixType_InvWorldViewProj,
      nzMatrixType_WorldView, nzMatrixType_WorldViewProj]"
| "invalidated_by nzMatrixType_ViewProj = [nzMatrixType_InvViewProj]"
| "invalidated_by nzMatrixType_WorldView =
     [nzMatrixType_InvWorldView, nzMatrixType_WorldViewProj]"
| "invalidated_by nzMatrixType_WorldViewProj = [nzMatrixType_InvWorldViewProj]"
| "invalidated_by _ = []"

definition SetMatrix ::
  "nzMatrixType \<Rightarrow> 'm \<Rightarrow> ('m, 's) renderer \<Rightarrow> ('m, 's) renderer" where
  "SetMatrix t m s =
     (let ms1 = (s_matrices s)(t := (s_matrices s t)\<lparr>matrix := m, updated := True\<rparr>);
          ms2 = fold invalidate (invalidated_by t) ms1
      in s\<lparr>s_matrices := ms2, s_updateFlags := s_updateFlags s OR Update_Matrices\<rparr>)"

text \<open>
  \<open>UpdateMatrix\<close> on the array of slots. An inverse that cannot be computed is only
  warned about: the slot is marked as updated all the same.
\<close>

definition store_inverse ::
  "('m, 's) renderer_env \<Rightarrow> nzMatrixType \<Rightarrow> nzMatrixType \<Rightarrow>
   (nzMatrixType \<Rightarrow> 'm MatrixUnit) \<Rightarrow> (nzMatrixType \<Rightarrow> 'm MatrixUnit)" where
  "store_inverse env src dst ms =
     ms(dst := (ms dst)\<lparr>matrix := snd (mat_GetInverse env (matrix (ms src)) (matrix (ms dst))),
                        updated := True\<rparr>)"

fun matrix_rank :: "nzMatrixType \<Rightarrow> nat" where
  "matrix_rank nzMatrixType_Projection = 0"
| "matrix_rank nzMatrixType_View = 0"
| "matrix_rank nzMatrixType_World = 0"
| "matrix_rank nzMatrixType_ViewProj = 1"
| "matrix_rank nzMatrixType_WorldView = 1"
| "matrix_rank nzMatrixType_WorldViewProj = 2"
| "matrix_rank nzMatrixType_InvProjection = 1"
| "matrix_rank nzMatrixType_InvView = 1"
| "matrix_rank nzMatrixType_InvViewProj = 2"
| "matrix_rank nzMatrixType_InvWorld = 1"
| "matrix_rank nzMatrixType_InvWorldView = 2"
| "matrix_rank nzMatrixType_InvWorldViewProj = 3"

function UpdateMatrix ::
  "('m, 's) renderer_env \<Rightarrow> nzMatrixType \<Rightarrow>
   (nzMatrixType \<Rightarrow> 'm MatrixUnit) \<Rightarrow> (nzMatrixType \<Rightarrow> 'm MatrixUnit)" where
  "UpdateMatrix env nzMatrixType_Projection ms =
     ms(nzMatrixType_Projection := (ms nzMatrixType_Projection)\<lparr>updated := True\<rparr>)"
| "UpdateMatrix env nzMatrixType_View ms =
     ms(nzMatrixType_View := (ms nzMatrixType_View)\<lparr>updated := True\<rparr>)"
| "UpdateMatrix env nzMatrixType_World ms =
     ms(nzMatrixType_World := (ms nzMatrixType_World)\<lparr>updated := True\<rparr>)"
| "UpdateMatrix env nzMatrixType_ViewProj ms =
     ms(nzMatrixType_ViewProj := (ms nzMatrixType_ViewProj)
          \<lparr>matrix := mat_mul env (matrix (ms nzMatrixType_View)) (matrix (ms nzMatrixType_Projection)),
           updated := True\<rparr>)"
| "UpdateMatrix env nzMatrixType_WorldView ms =
     ms(nzMatrixType_WorldView := (ms nzMatrixType_WorldView)
          \<lparr>matrix := mat_ConcatenateAffine env (matrix (ms nzMatrixType_World))
                        (matrix (ms nzMatrixType_View)),
           updated := True\<rparr>)"
| "UpdateMatrix env nzMatrixType_WorldViewProj ms =
     (let ms1 = (if \<not> updated (ms nzMatrixType_WorldView)
                 then UpdateMatrix env nzMatrixType_WorldView ms else ms)
      in ms1(nzMatrixType_WorldViewProj := (ms1 nzMatrixType_WorldViewProj)
           \<lparr>matrix := mat_Concatenate env (matrix (ms1 nzMatrixType_WorldView))
                         (matrix (ms1 nzMatrixType_Projection)),
            updated := True\<rparr>))"
| "UpdateMatrix env nzMatrixType_InvProjection ms =
     (let ms1 = (if \<not> updated (ms nzMatrixType_Projection)
                 then UpdateMatrix env nzMatrixType_Projection ms else ms)
      in store_inverse env nzMatrixType_Projection nzMatrixType_InvProjection ms1)"
| "UpdateMatrix env nzMatrixType_InvView ms =
     (let ms1 = (if \<not> updated (ms nzMatrixType_View)
                 then UpdateMatrix env nzMatrixType_View ms else ms)
      in store_inverse env nzMatrixType_View nzMatrixType_InvView ms1)"
| "UpdateMatrix env nzMatrixType_InvViewProj ms =
     (let ms1 = (if \<not> updated (ms nzMatrixType_ViewProj)
                 then UpdateMatrix env nzMatrixType_ViewProj ms else ms)
      in store_inverse env nzMatrixType_ViewProj nzMatrixType_InvViewProj ms1)"
| "UpdateMatrix env nzMatrixType_InvWorld ms =
     (let ms1 = (if \<not> updated (ms nzMatrixType_World)
                 then UpdateMatrix env nzMatrixType_World ms else ms)
      in store_inverse env nzMatrixType_World nzMatrixType_InvWorld ms1)"
| "UpdateMatrix env nzMatrixType_InvWorldView ms =
     (let ms1 = (if \<not> updated (ms nzMatrixType_WorldView)
                 then UpdateMatrix env nzMatrixType_WorldView ms else ms)
      in store_inverse env nzMatrixType_WorldView nzMatrixType_InvWorldView ms1)"
| "UpdateMatrix env nzMatrixType_InvWorldViewProj ms =
     (let ms1 = (if \<not> updated (ms nzMatrixType_WorldViewProj)
                 then UpdateMatrix env nzMatrixType_WorldViewProj ms else ms)
      in store_inverse env nzMatrixType_WorldViewProj nzMatrixType_InvWorldViewProj ms1)"
  by pat_completeness auto
termination
  by (relation "measure (\<lambda>(env, t, ms). matrix_rank t)") auto

definition GetMatrix ::
  "('m, 's) renderer_env \<Rightarrow> nzMatrixType \<Rightarrow> ('m, 's) renderer \<Rightarrow> 'm \<times> ('m, 's) renderer" where
  "GetMatrix env t s =
     (let s1 = (if \<not> updated (s_matrices s t)
                then s\<lparr>s_matrices := UpdateMatrix env t (s_matrices s)\<rparr> else s)
      in (matrix (s_matrices s1 t), s1))"


subsection \<open>Reconciliation\<close>

text \<open>
  The calls \<open>EnsureStateUpdate\<close> makes on the GPU and on its collaborators, in the
  order they are made. \<open>ProgramVertexAttributes vb inst ib\<close> stands for the whole
  \<open>if (update)\<close> block: the attribute pointers of the vertex buffer, those of the
  instance buffer when instancing is on, and the binding of the index buffer.
\<close>

datatype nzBufferType = nzBufferType_Index | nzBufferType_Vertex

datatype 'm gl_call =
    Target_EnsureTargetUpdated ptr
  | Program_Bind ptr
  | Program_GetUniformLocation ptr nzShaderUniform
  | Program_BindTextures ptr
  | Program_SendInvTargetSize int "nat \<times> nat"
  | Program_SendTargetSize int "nat \<times> nat"
  | Program_SendMatrix int 'm
  | OpenGL_BindTextureUnit nat
  | Texture_EnsureMipmapsUpdate ptr
  | Sampler_Bind nat
  | Sampler_Apply nat ptr
  | AddResourceListener ptr int
  | glGenVertexArrays nat
  | glBindVertexArray nat
  | ProgramVertexAttributes ptr bool ptr
  | OpenGL_SetBuffer nzBufferType nat
  | OpenGL_BindTexture nat ptr
  | OpenGL_ApplyStates

text \<open>The twelve assignments of uniform locations, in the order of the source.\<close>

definition matrix_uniforms :: "(nzMatrixType \<times> nzShaderUniform) list" where
  "matrix_uniforms =
     [(nzMatrixType_Projection, nzShaderUniform_ProjMatrix),
      (nzMatrixType_View, nzShaderUniform_ViewMatrix),
      (nzMatrixType_World, nzShaderUniform_WorldMatrix),
      (nzMatrixType_ViewProj, nzShaderUniform_ViewProjMatrix),
      (nzMatrixType_WorldView, nzShaderUniform_WorldViewMatrix),
      (nzMatrixType_WorldViewProj, nzShaderUniform_WorldViewProjMatrix),
      (nzMatrixType_InvProjection, nzShaderUniform_InvProjMatrix),
      (nzMatrixType_InvView, nzShaderUniform_InvViewMatrix),
      (nzMatrixType_InvViewProj, nzShaderUniform_InvViewProjMatrix),
      (nzMatrixType_InvWorld, nzShaderUniform_InvWorldMatrix),
      (nzMatrixType_InvWorldView, nzShaderUniform_InvWorldViewMatrix),
      (nzMatrixType_InvWorldViewProj, nzShaderUniform_InvWorldViewProjMatrix)]"

definition resolve_locations ::
  "('m, 's) renderer_env \<Rightarrow> ptr \<Rightarrow>
   (nzMatrixType \<Rightarrow> 'm MatrixUnit) \<Rightarrow> (nzMatrixType \<Rightarrow> 'm MatrixUnit)" where
  "resolve_locations env prog ms =
     fold (\<lambda>(t, u) ms'. ms'(t := (ms' t)\<lparr>location := prog_GetUniformLocation env prog u\<rparr>))
       matrix_uniforms ms"

text \<open>Step 3: the program changed since the last reconciliation.\<close>

definition reconcile_program ::
  "('m, 's) renderer_env \<Rightarrow> ('m, 's) renderer \<Rightarrow> ('m, 's) renderer \<times> 'm gl_call list" where
  "reconcile_program env s =
     (if s_updateFlags s AND Update_Program \<noteq> 0
      then (s\<lparr>s_matrices := resolve_locations env (s_program s) (s_matrices s),
              s_targetSize := (0, 0),
              s_updateFlags := (s_updateFlags s OR Update_Matrices) AND NOT Update_Program\<rparr>,
            map (\<lambda>(t, u). Program_GetUniformLocation (s_program s) u) matrix_uniforms)
      else (s, []))"

text \<open>Step 4: the uniforms that depend on the size of the target.\<close>

definition reconcile_target_size ::
  "('m, 's) renderer_env \<Rightarrow> ('m, 's) renderer \<Rightarrow> ('m, 's) renderer \<times> 'm gl_call list" where
  "reconcile_target_size env s =
     (let targetSize = (target_GetWidth env (s_target s), target_GetHeight env (s_target s))
      in if s_targetSize s \<noteq> targetSize
         then
           let l1 = prog_GetUniformLocation env (s_program s) nzShaderUniform_InvTargetSize;
               l2 = prog_GetUniformLocation env (s_program s) nzShaderUniform_TargetSize
           in (s\<lparr>s_targetSize := targetSize\<rparr>,
               [Program_GetUniformLocation (s_program s) nzShaderUniform_InvTargetSize]
               @ (if l1 \<noteq> - 1 then [Program_SendInvTargetSize l1 targetSize] else [])
               @ [Program_GetUniformLocation (s_program s) nzShaderUniform_TargetSize]
               @ (if l2 \<noteq> - 1 then [Program_SendTargetSize l2 targetSize] else []))
         else (s, []))"

text \<open>The body of the loop over the dirty texture units, with sampler objects.\<close>

definition update_unit_sampler_objects ::
  "nat \<Rightarrow> 's TextureUnit \<Rightarrow> 's TextureUnit \<times> 'm gl_call list" where
  "update_unit_sampler_objects i unit =
     (if texture unit \<noteq> nullptr
      then
        let r1 = (if \<not> textureUpdated unit
                  then (unit\<lparr>textureUpdated := True\<rparr>,
                        [OpenGL_BindTextureUnit i, Texture_EnsureMipmapsUpdate (texture unit)])
                  else (unit, []));
            r2 = (if \<not> samplerUpdated (fst r1)
                  then ((fst r1)\<lparr>samplerUpdated := True\<rparr>, [Sampler_Bind i])
                  else (fst r1, []))
        in (fst r2, snd r1 @ snd r2)
      else (unit, []))"

text \<open>The same body without sampler objects.\<close>

definition update_unit_no_sampler_objects ::
  "nat \<Rightarrow> 's TextureUnit \<Rightarrow> 's TextureUnit \<times> 'm gl_call list" where
  "update_unit_no_sampler_objects i unit =
     (if texture unit \<noteq> nullptr
      then (unit\<lparr>textureUpdated := True, samplerUpdated := True\<rparr>,
            [OpenGL_BindTextureUnit i, Texture_EnsureMipmapsUpdate (texture unit),
             Sampler_Apply i (texture unit)])
      else (unit, []))"

text \<open>
  The loop over \<open>s_dirtyTextureUnits\<close>. The source indexes \<open>s_textureUnits\<close> without a
  check; the setters only ever mark a unit below the size of the vector, and an index
  beyond it is skipped here.
\<close>

fun update_texture_units ::
  "(nat \<Rightarrow> 's TextureUnit \<Rightarrow> 's TextureUnit \<times> 'm gl_call list) \<Rightarrow> nat list \<Rightarrow>
   's TextureUnit list \<Rightarrow> 's TextureUnit list \<times> 'm gl_call list" where
  "update_texture_units body [] units = (units, [])"
| "update_texture_units body (i # dirty) units =
     (if i < length units
      then
        let r = body i (units ! i);
            rest = update_texture_units body dirty (units[i := fst r])
        in (fst rest, snd r @ snd rest)
      else update_texture_units body dirty units)"

definition reconcile_textures ::
  "('m, 's) renderer \<Rightarrow> ('m, 's) renderer \<times> 'm gl_call list" where
  "reconcile_textures s =
     (if s_updateFlags s AND Update_Textures \<noteq> 0
      then
        let r = update_texture_units
                  (if s_useSamplerObjects s then update_unit_sampler_objects
                   else update_unit_no_sampler_objects)
                  (s_dirtyTextureUnits s) (s_textureUnits s)
        in (s\<lparr>s_textureUnits := fst r,
               s_dirtyTextureUnits := [],
               s_updateFlags := s_updateFlags s AND NOT Update_Textures\<rparr>, snd r)
      else (s, []))"

text \<open>The loop \<open>for (i = 0; i <= nzMatrixType_Max; ++i)\<close> over the matrix slots.\<close>

definition all_matrix_types :: "nzMatrixType list" where
  "all_matrix_types =
     [nzMatrixType_Projection, nzMatrixType_View, nzMatrixType_World,
      nzMatrixType_ViewProj, nzMatrixType_WorldView, nzMatrixType_WorldViewProj,
      nzMatrixType_InvProjection, nzMatrixType_InvView, nzMatrixType_InvViewProj,
      nzMatrixType_InvWorld, nzMatrixType_InvWorldView, nzMatrixType_InvWorldViewProj]"

fun send_matrices ::
  "('m, 's) renderer_env \<Rightarrow> nzMatrixType list \<Rightarrow> (nzMatrixType \<Rightarrow> 'm MatrixUnit) \<Rightarrow>
   (nzMatrixType \<Rightarrow> 'm MatrixUnit) \<times> 'm gl_call list" where
  "send_matrices env [] ms = (ms, [])"
| "send_matrices env (t # ts) ms =
     (if location (ms t) \<noteq> - 1
      then
        let ms1 = (if \<not> updated (ms t) then UpdateMatrix env t ms else ms);
            rest = send_matrices env ts ms1
        in (fst rest, Program_SendMatrix (location (ms1 t)) (matrix (ms1 t)) # snd rest)
      else send_matrices env ts ms)"

definition reconcile_matrices ::
  "('m, 's) renderer_env \<Rightarrow> ('m, 's) renderer \<Rightarrow> ('m, 's) renderer \<times> 'm gl_call list" where
  "reconcile_matrices env s =
     (if s_updateFlags s AND Update_Matrices \<noteq> 0
      then
        let r = send_matrices env all_matrix_types (s_matrices s)
        in (s\<lparr>s_matrices := fst r,
               s_updateFlags := s_updateFlags s AND NOT Update_Matrices\<rparr>, snd r)
      else (s, []))"

text \<open>
  \<open>insert\<close> of \<open>std::map\<close> and \<open>std::unordered_map\<close>: a key that is present keeps its
  value. The result is the map and whether the entry was inserted.
\<close>

definition map_insert :: "'k \<Rightarrow> 'v \<Rightarrow> ('k \<times> 'v) list \<Rightarrow> ('k \<times> 'v) list \<times> bool" where
  "map_insert k v m = (if map_of m k = None then (m @ [(k, v)], True) else (m, False))"

text \<open>Assignment through the reference to the mapped value of a key that is present.\<close>

definition map_assign :: "'k \<Rightarrow> 'v \<Rightarrow> ('k \<times> 'v) list \<Rightarrow> ('k \<times> 'v) list" where
  "map_assign k v m = map (\<lambda>(k', v'). if k' = k then (k', v) else (k', v')) m"

text \<open>The key of the vertex array object for the buffers that are bound.\<close>

definition vao_key :: "('m, 's) renderer_env \<Rightarrow> ('m, 's) renderer \<Rightarrow> VAO_Key" where
  "vao_key env s =
     (s_indexBuffer s, s_vertexBuffer s, vb_GetVertexDeclaration env (s_vertexBuffer s),
      if s_instancing s then s_instancingDeclaration s else nullptr)"

text \<open>
  The lookup in the cache of the current context, and the creation of the entry when
  there is none. The result says whether the vertex array has to be programmed.
\<close>

definition lookup_vao ::
  "('m, 's) renderer_env \<Rightarrow> ('m, 's) renderer \<Rightarrow> bool \<times> ('m, 's) renderer \<times> 'm gl_call list" where
  "lookup_vao env s =
     (let ctx = ctx_GetCurrent env;
          pair = map_insert ctx [] (s_vaos s);
          ev0 = (if snd pair then [AddResourceListener ctx ResourceType_Context] else []);
          vaos = (case map_of (fst pair) ctx of Some m \<Rightarrow> m | None \<Rightarrow> []);
          key = vao_key env s
      in case map_of vaos key of
           None \<Rightarrow>
             let vao = gl_GenVertexArrays_result env
             in (True,
                 s\<lparr>s_currentVAO := vao,
                   s_vaos := map_assign ctx (fst (map_insert key vao vaos)) (fst pair)\<rparr>,
                 ev0 @ [glGenVertexArrays vao, glBindVertexArray vao]
                 @ (if s_indexBuffer s \<noteq> nullptr
                    then [AddResourceListener (s_indexBuffer s) ResourceType_IndexBuffer] else [])
                 @ [AddResourceListener (s_vertexBuffer s) ResourceType_VertexBuffer,
                    AddResourceListener (fst (snd (snd key))) ResourceType_VertexDeclaration]
                 @ (if snd (snd (snd key)) \<noteq> nullptr
                    then [AddResourceListener (snd (snd (snd key))) ResourceType_VertexDeclaration]
                    else []))
         | Some vao \<Rightarrow> (False, s\<lparr>s_currentVAO := vao, s_vaos := fst pair\<rparr>, ev0))"

text \<open>The vertex array category. The first component is false when no vertex buffer is bound.\<close>

definition reconcile_vao ::
  "('m, 's) renderer_env \<Rightarrow> ('m, 's) renderer \<Rightarrow> bool \<times> ('m, 's) renderer \<times> 'm gl_call list" where
  "reconcile_vao env s =
     (if s_vertexBuffer s = nullptr then (False, s, [])
      else
        let r = (if s_useVertexArrayObjects s then lookup_vao env s else (True, s, []));
            update = fst r;
            s1 = fst (snd r);
            ev1 = (if update
                   then [ProgramVertexAttributes (s_vertexBuffer s1) (s_instancing s1) (s_indexBuffer s1)]
                   else []);
            ev2 = (if s_useVertexArrayObjects s1 \<and> update then [glBindVertexArray 0] else []);
            s2 = (if s_useVertexArrayObjects s1
                  then s1\<lparr>s_updateFlags := s_updateFlags s1 AND NOT Update_VAO\<rparr> else s1)
        in (True, s2,
            snd (snd r) @ ev1 @ ev2
            @ [OpenGL_SetBuffer nzBufferType_Index 0, OpenGL_SetBuffer nzBufferType_Vertex 0]))"

text \<open>The defensive rebinding of every unit that holds a texture.\<close>

definition rebind_textures :: "('m, 's) renderer \<Rightarrow> 'm gl_call list" where
  "rebind_textures s =
     concat (map (\<lambda>i. if i < length (s_textureUnits s) \<and> texture (s_textureUnits s ! i) \<noteq> nullptr
                      then [OpenGL_BindTexture i (texture (s_textureUnits s ! i))] else [])
                 [0 ..< s_maxTextureUnit s])"

text \<open>What every successful call ends with.\<close>

definition finish_update :: "('m, 's) renderer \<Rightarrow> 'm gl_call list" where
  "finish_update s =
     (if s_useVertexArrayObjects s then [glBindVertexArray (s_currentVAO s)] else [])
     @ rebind_textures s @ [OpenGL_ApplyStates]"

text \<open>
  \<open>EnsureStateUpdate\<close>: the result, the state afterwards and the calls made.
\<close>

definition EnsureStateUpdate ::
  "('m, 's) renderer_env \<Rightarrow> ('m, 's) renderer \<Rightarrow> bool \<times> ('m, 's) renderer \<times> 'm gl_call list" where
  "EnsureStateUpdate env s =
     (if ctx_GetCurrent env = nullptr then (False, s, [])
      else if s_program s = nullptr then (False, s, [])
      else if s_target s = nullptr then (False, s, [])
      else
        let ev0 = [Target_EnsureTargetUpdated (s_target s), Program_Bind (s_program s)];
            r1 = reconcile_program env s;
            ev1 = ev0 @ snd r1 @ [Program_BindTextures (s_program s)];
            r2 = reconcile_target_size env (fst r1);
            ev2 = ev1 @ snd r2;
            s2 = fst r2
        in if s_updateFlags s2 \<noteq> Update_None
           then
             let r3 = reconcile_textures s2;
                 r4 = reconcile_matrices env (fst r3);
                 ev4 = ev2 @ snd r3 @ snd r4;
                 s4 = fst r4
             in if s_updateFlags s4 AND Update_VAO \<noteq> 0
                then (case reconcile_vao env s4 of
                        (ok, s5, ev5) \<Rightarrow>
                          if ok then (True, s5, ev4 @ ev5 @ finish_update s5)
                          else (False, s5, ev4 @ ev5))
                else (True, s4, ev4 @ finish_update s4)
           else (True, s2, ev2 @ finish_update s2))"

subsection \<open>Destruction of a resource of a cached vertex array\<close>


text \<open>\<open>erase(key)\<close> of a map.\<close>

definition map_erase :: "'k \<Rightarrow> ('k \<times> 'v) list \<Rightarrow> ('k \<times> 'v) list" where
  "map_erase k m = filter (\<lambda>e. fst e \<noteq> k) m"


subsection \<open>Initialisation\<close>

text \<open>
  The state \<open>Initialize\<close> leaves, as far as this record goes: every matrix slot holds
  the identity, is marked as updated and has no location; nothing is bound; the vector
  of texture units has the size the GPU reports, each unit as its default member
  initialisers say; the variables \<open>Initialize\<close> does not assign are zero-initialised
  statics.
\<close>

definition Initialize ::
  "'m \<Rightarrow> 's \<Rightarrow> nat \<Rightarrow> bool \<Rightarrow> bool \<Rightarrow> ('m, 's) renderer" where
  "Initialize identity defaultSampler maxTextureUnits samplerObjects vertexArrayObjects =
     \<lparr>s_vaos = [],
      s_dirtyTextureUnits = [],
      s_textureUnits = replicate maxTextureUnits
         \<lparr>sampler = defaultSampler, texture = nullptr,
          samplerUpdated = False, textureUpdated = True\<rparr>,
      s_currentVAO = 0,
      s_matrices = (\<lambda>t. \<lparr>matrix = identity, updated = True, location = - 1\<rparr>),
      s_targetSize = (0, 0),
      s_updateFlags = Update_Matrices OR Update_Program OR Update_VAO,
      s_indexBuffer = nullptr,
      s_target = nullptr,
      s_program = nullptr,
      s_vertexBuffer = nullptr,
      s_instancingDeclaration = nullptr,
      s_instancing = False,
      s_useSamplerObjects = samplerObjects,
      s_useVertexArrayObjects = vertexArrayObjects,
      s_maxTextureUnit = maxTextureUnits\<rparr>"


section \<open>Deferred render queue\<close>

text \<open>
  \<open>nzAnimationType\<close> and \<open>nzLightType\<close>, with the enumerators the two \<open>switch\<close>
  statements of the queue name.
\<close>

datatype nzAnimationType = nzAnimationType_Skeletal | nzAnimationType_Static

datatype nzLightType = nzLightType_Directional | nzLightType_Point | nzLightType_Spot

text \<open>The queue's own \<open>enum ResourceType\<close>.\<close>

definition ResourceType_Material :: int where "ResourceType_Material = 0"
definition ResourceType_SkeletalMesh :: int where "ResourceType_SkeletalMesh = 1"
definition ResourceType_StaticMesh :: int where "ResourceType_StaticMesh = 2"

text \<open>
  What the queue reads from lights, materials, submeshes and buffers, and the constants
  it uses that are defined in other files: the two shader flags and the least number of
  instances for which instancing is switched on. \<open>material_GetShaderProgram m f\<close>
  stands for \<open>m->GetShaderProgram(nzShaderTarget_Model, f)\<close> and
  \<open>material_IsBlendEnabled m\<close> for \<open>m->IsEnabled(nzRendererParameter_Blend)\<close>.
\<close>

record graphics_env =
  light_GetLightType :: "ptr \<Rightarrow> nzLightType"
  material_IsBlendEnabled :: "ptr \<Rightarrow> bool"
  material_GetShaderProgram :: "ptr \<Rightarrow> 32 word \<Rightarrow> ptr"
  material_GetDiffuseMap :: "ptr \<Rightarrow> ptr"
  sprite_GetMaterial :: "ptr \<Rightarrow> ptr"
  subMesh_GetAnimationType :: "ptr \<Rightarrow> nzAnimationType"
  subMesh_GetIndexBuffer :: "ptr \<Rightarrow> ptr"
  subMesh_GetVertexBuffer :: "ptr \<Rightarrow> ptr"
  indexBuffer_GetBuffer :: "ptr \<Rightarrow> ptr"
  vertexBuffer_GetBuffer :: "ptr \<Rightarrow> ptr"
  nzShaderFlags_Deferred :: "32 word"
  nzShaderFlags_Instancing :: "32 word"
  NAZARA_GRAPHICS_INSTANCING_MIN_INSTANCES_COUNT :: nat

text \<open>
  The companion forward queue is defined elsewhere; it is kept as the list of the calls
  forwarded to it.
\<close>

datatype 'm forward_call =
    Forward_AddLight ptr
  | Forward_AddSprite ptr
  | Forward_AddSubMesh ptr ptr 'm
  | Forward_Clear bool

text \<open>
  The value of an entry of \<open>opaqueModels\<close>: the tuple (used, instancing enabled,
  skeletal meshes, static meshes). The two inner maps go from a submesh to the list of its
  instances, each instance being its transform matrix.
\<close>

record 'm batch_entry =
  used :: bool
  enableInstancing :: bool
  skeletalContainer :: "(ptr \<times> 'm list) list"
  staticContainer :: "(ptr \<times> 'm list) list"

definition new_batch_entry :: "'m batch_entry" where
  "new_batch_entry =
     \<lparr>used = False, enableInstancing = False, skeletalContainer = [], staticContainer = []\<rparr>"

text \<open>
  The queue. The maps are association lists keyed by the address of the material or of
  the submesh: every comparator the maps are ordered by ends with the comparison of the
  two addresses, so two keys are equivalent only if they are the same pointer.

  \<open>listeners\<close> is modelled from the spec: \<open>NzResource::AddResourceListener\<close> and
  \<open>RemoveResourceListener\<close> are not in the source file at hand. The spec asks of every
  resource that it supports "registering/deregistering a listener that is synchronously
  invoked (with a type tag) when the resource is destroyed". The field holds the
  resources this queue is registered on, each with the tag it was registered with.
\<close>

record 'm render_queue =
  directionalLights :: "ptr list"
  pointLights :: "ptr list"
  spotLights :: "ptr list"
  opaqueModels :: "(ptr \<times> 'm batch_entry) list"
  sprites :: "(ptr \<times> ptr list) list"
  listeners :: "(ptr \<times> int) list"
  m_forwardQueue :: "'m forward_call list"

definition empty_queue :: "'m render_queue" where
  "empty_queue =
     \<lparr>directionalLights = [], pointLights = [], spotLights = [], opaqueModels = [],
      sprites = [], listeners = [], m_forwardQueue = []\<rparr>"

text \<open>Modelled from the spec: registering this queue on a resource, with a tag.\<close>

definition Resource_AddResourceListener :: "ptr \<Rightarrow> int \<Rightarrow> (ptr \<times> int) list \<Rightarrow> (ptr \<times> int) list" where
  "Resource_AddResourceListener resource index ls = fst (map_insert resource index ls)"

text \<open>Modelled from the spec: deregistering this queue from a resource.\<close>

definition Resource_RemoveResourceListener :: "ptr \<Rightarrow> (ptr \<times> int) list \<Rightarrow> (ptr \<times> int) list" where
  "Resource_RemoveResourceListener resource ls = map_erase resource ls"

definition AddLight :: "graphics_env \<Rightarrow> ptr \<Rightarrow> 'm render_queue \<Rightarrow> 'm render_queue" where
  "AddLight env light q =
     (if light = nullptr then q
      else
        let q1 = (case light_GetLightType env light of
                    nzLightType_Directional \<Rightarrow> q\<lparr>directionalLights := directionalLights q @ [light]\<rparr>
                  | nzLightType_Point \<Rightarrow> q\<lparr>pointLights := pointLights q @ [light]\<rparr>
                  | nzLightType_Spot \<Rightarrow> q\<lparr>spotLights := spotLights q @ [light]\<rparr>)
        in q1\<lparr>m_forwardQueue := m_forwardQueue q1 @ [Forward_AddLight light]\<rparr>)"

text \<open>
  \<open>AddSprite\<close>, for a sprite that is drawable. \<open>sprites[material]\<close> creates the entry
  when there is none.
\<close>

definition AddSprite :: "graphics_env \<Rightarrow> ptr \<Rightarrow> 'm render_queue \<Rightarrow> 'm render_queue" where
  "AddSprite env sprite q =
     (if sprite = nullptr then q
      else
        let material = sprite_GetMaterial env sprite
        in if material_IsBlendEnabled env material
           then q\<lparr>m_forwardQueue := m_forwardQueue q @ [Forward_AddSprite sprite]\<rparr>
           else
             let m1 = fst (map_insert material [] (sprites q));
                 old = (case map_of m1 material of Some l \<Rightarrow> l | None \<Rightarrow> [])
             in q\<lparr>sprites := map_assign material (old @ [sprite]) m1\<rparr>)"

text \<open>
  \<open>AddSubMesh\<close>. The values looked up after an \<open>insert\<close> are present; the \<open>None\<close>
  branches are never taken.
\<close>

definition AddSubMesh ::
  "graphics_env \<Rightarrow> ptr \<Rightarrow> ptr \<Rightarrow> 'm \<Rightarrow> 'm render_queue \<Rightarrow> 'm render_queue" where
  "AddSubMesh env material subMesh transformMatrix q =
     (case subMesh_GetAnimationType env subMesh of
        nzAnimationType_Skeletal \<Rightarrow> q
      | nzAnimationType_Static \<Rightarrow>
          if material_IsBlendEnabled env material
          then q\<lparr>m_forwardQueue :=
                   m_forwardQueue q @ [Forward_AddSubMesh material subMesh transformMatrix]\<rparr>
          else
            let pair = map_insert material new_batch_entry (opaqueModels q);
                ls1 = (if snd pair
                       then Resource_AddResourceListener material ResourceType_Material (listeners q)
                       else listeners q);
                entry = (case map_of (fst pair) material of Some e \<Rightarrow> e | None \<Rightarrow> new_batch_entry);
                pair2 = map_insert subMesh [] (staticContainer entry);
                ls2 = (if snd pair2
                       then Resource_AddResourceListener subMesh ResourceType_StaticMesh ls1
                       else ls1);
                staticDataContainer = (case map_of (fst pair2) subMesh of Some d \<Rightarrow> d | None \<Rightarrow> []);
                instanceCount = length staticDataContainer + 1;
                enable = (if instanceCount \<ge> NAZARA_GRAPHICS_INSTANCING_MIN_INSTANCES_COUNT env
                          then True else enableInstancing entry);
                entry1 = entry\<lparr>used := True, enableInstancing := enable,
                               staticContainer :=
                                 map_assign subMesh (staticDataContainer @ [transformMatrix]) (fst pair2)\<rparr>
            in q\<lparr>opaqueModels := map_assign material entry1 (fst pair), listeners := ls2\<rparr>)"

text \<open>
  The resources \<open>Clear(true)\<close> deregisters from, in the order of its loops: each material
  of the table, then its skeletal meshes, then its static meshes.
\<close>

definition table_resources :: "(ptr \<times> 'm batch_entry) list \<Rightarrow> ptr list" where
  "table_resources table =
     concat (map (\<lambda>(material, entry).
                    material # map fst (skeletalContainer entry) @ map fst (staticContainer entry))
                 table)"

definition Clear :: "bool \<Rightarrow> 'm render_queue \<Rightarrow> 'm render_queue" where
  "Clear fully q =
     (let q1 = q\<lparr>directionalLights := [], pointLights := [], spotLights := []\<rparr>;
          q2 = (if fully
                then q1\<lparr>listeners := fold Resource_RemoveResourceListener
                                        (table_resources (opaqueModels q1)) (listeners q1),
                        opaqueModels := [], sprites := []\<rparr>
                else q1)
      in q2\<lparr>m_forwardQueue := m_forwardQueue q2 @ [Forward_Clear fully]\<rparr>)"

text \<open>\<open>OnResourceDestroy\<close>; the result is always false.\<close>

definition OnResourceDestroy :: "ptr \<Rightarrow> int \<Rightarrow> 'm render_queue \<Rightarrow> bool \<times> 'm render_queue" where
  "OnResourceDestroy resource index q =
     (False,
      if index = ResourceType_Material
      then q\<lparr>opaqueModels := map_erase resource (opaqueModels q)\<rparr>
      else if index = ResourceType_SkeletalMesh
      then q\<lparr>opaqueModels :=
               map (\<lambda>(material, entry).
                      (material, entry\<lparr>skeletalContainer := map_erase resource (skeletalContainer entry)\<rparr>))
                   (opaqueModels q)\<rparr>
      else if index = ResourceType_StaticMesh
      then q\<lparr>opaqueModels :=
               map (\<lambda>(material, entry).
                      (material, entry\<lparr>staticContainer := map_erase resource (staticContainer entry)\<rparr>))
                   (opaqueModels q)\<rparr>
      else q)"

definition OnResourceReleased :: "ptr \<Rightarrow> int \<Rightarrow> 'm render_queue \<Rightarrow> 'm render_queue" where
  "OnResourceReleased resource index q = snd (OnResourceDestroy resource index q)"

text \<open>
  Modelled from the spec: the destruction of a resource. The resource itself, which is
  not in the source file at hand, invokes each of its listeners with the tag of the
  registration, and the registration ends with the resource. The result says whether
  the callback of this queue fired.
\<close>

definition destroy_resource :: "ptr \<Rightarrow> 'm render_queue \<Rightarrow> bool \<times> 'm render_queue" where
  "destroy_resource resource q =
     (case map_of (listeners q) resource of
        None \<Rightarrow> (False, q)
      | Some index \<Rightarrow>
          (True, OnResourceReleased resource index
                   (q\<lparr>listeners := Resource_RemoveResourceListener resource (listeners q)\<rparr>)))"

subsection \<open>Comparators\<close>

text \<open>
  Pointers are compared by address. The loop over \<open>possibleFlags\<close> returns as soon as
  the two programs differ; \<open>None\<close> says that it ran to its end.
\<close>

fun compare_programs :: "graphics_env \<Rightarrow> 32 word list \<Rightarrow> ptr \<Rightarrow> ptr \<Rightarrow> bool option" where
  "compare_programs env [] mat1 mat2 = None"
| "compare_programs env (flag # flags) mat1 mat2 =
     (let program1 = material_GetShaderProgram env mat1 flag;
          program2 = material_GetShaderProgram env mat2 flag
      in if program1 \<noteq> program2 then Some (program1 < program2)
         else compare_programs env flags mat1 mat2)"

definition BatchedModelMaterialComparator :: "graphics_env \<Rightarrow> ptr \<Rightarrow> ptr \<Rightarrow> bool" where
  "BatchedModelMaterialComparator env mat1 mat2 =
     (case compare_programs env
             [nzShaderFlags_Deferred env,
              nzShaderFlags_Deferred env OR nzShaderFlags_Instancing env] mat1 mat2 of
        Some r \<Rightarrow> r
      | None \<Rightarrow>
          let diffuseMap1 = material_GetDiffuseMap env mat1;
              diffuseMap2 = material_GetDiffuseMap env mat2
          in if diffuseMap1 \<noteq> diffuseMap2 then diffuseMap1 < diffuseMap2
             else mat1 < mat2)"

definition BatchedSkeletalMeshComparator :: "graphics_env \<Rightarrow> ptr \<Rightarrow> ptr \<Rightarrow> bool" where
  "BatchedSkeletalMeshComparator env subMesh1 subMesh2 =
     (let iBuffer1 = subMesh_GetIndexBuffer env subMesh1;
          buffer1 = (if iBuffer1 \<noteq> nullptr then indexBuffer_GetBuffer env iBuffer1 else nullptr);
          iBuffer2 = subMesh_GetIndexBuffer env subMesh1;
          buffer2 = (if iBuffer2 \<noteq> nullptr then indexBuffer_GetBuffer env iBuffer2 else nullptr)
      in if buffer1 = buffer2 then subMesh1 < subMesh2
         else buffer2 < buffer2)"

definition BatchedStaticMeshComparator :: "graphics_env \<Rightarrow> ptr \<Rightarrow> ptr \<Rightarrow> bool" where
  "BatchedStaticMeshComparator env subMesh1 subMesh2 =
     (let iBuffer1 = subMesh_GetIndexBuffer env subMesh1;
          buffer1 = (if iBuffer1 \<noteq> nullptr then indexBuffer_GetBuffer env iBuffer1 else nullptr);
          iBuffer2 = subMesh_GetIndexBuffer env subMesh2;
          buffer2 = (if iBuffer2 \<noteq> nullptr then indexBuffer_GetBuffer env iBuffer2 else nullptr)
      in if buffer1 = buffer2
         then
           let vbuffer1 = vertexBuffer_GetBuffer env (subMesh_GetVertexBuffer env subMesh1);
               vbuffer2 = vertexBuffer_GetBuffer env (subMesh_GetVertexBuffer env subMesh2)
           in if vbuffer1 = vbuffer2 then subMesh1 < subMesh2
              else vbuffer1 < vbuffer2
         else buffer1 < buffer2)"

text \<open>
  The mesh order as the specification words it: the storage of the index buffers first,
  then the storage of the vertex buffers, then the submeshes themselves, each stage
  comparing what belongs to the first submesh with what belongs to the second.
\<close>

definition index_storage :: "graphics_env \<Rightarrow> ptr \<Rightarrow> ptr" where
  "index_storage env subMesh =
     (if subMesh_GetIndexBuffer env subMesh \<noteq> nullptr
      then indexBuffer_GetBuffer env (subMesh_GetIndexBuffer env subMesh) else nullptr)"

definition vertex_storage :: "graphics_env \<Rightarrow> ptr \<Rightarrow> ptr" where
  "vertex_storage env subMesh = vertexBuffer_GetBuffer env (subMesh_GetVertexBuffer env subMesh)"

definition three_stage_mesh_order :: "graphics_env \<Rightarrow> ptr \<Rightarrow> ptr \<Rightarrow> bool" where
  "three_stage_mesh_order env subMesh1 subMesh2 =
     (if index_storage env subMesh1 \<noteq> index_storage env subMesh2
      then index_storage env subMesh1 < index_storage env subMesh2
      else if vertex_storage env subMesh1 \<noteq> vertex_storage env subMesh2
      then vertex_storage env subMesh1 < vertex_storage env subMesh2
      else subMesh1 < subMesh2)"


section \<open>Notions the properties are stated with\<close>

text \<open>The flags after step 3, as a function of the flags before it.\<close>

definition flags_after_program :: "32 word \<Rightarrow> 32 word" where
  "flags_after_program f =
     (if f AND Update_Program \<noteq> 0 then (f OR Update_Matrices) AND NOT Update_Program else f)"

text \<open>The state when the dirty categories are about to be looked at.\<close>

definition before_categories ::
  "('m, 's) renderer_env \<Rightarrow> ('m, 's) renderer \<Rightarrow> ('m, 's) renderer" where
  "before_categories env s = fst (reconcile_target_size env (fst (reconcile_program env s)))"

text \<open>The state when the vertex array category is about to be looked at.\<close>

definition before_vao ::
  "('m, 's) renderer_env \<Rightarrow> ('m, 's) renderer \<Rightarrow> ('m, 's) renderer" where
  "before_vao env s =
     fst (reconcile_matrices env (fst (reconcile_textures (before_categories env s))))"





text \<open>What the material comparator looks at, in the order it looks at it.\<close>

definition material_key :: "graphics_env \<Rightarrow> ptr \<Rightarrow> ptr \<times> ptr \<times> ptr \<times> ptr" where
  "material_key env m =
     (material_GetShaderProgram env m (nzShaderFlags_Deferred env),
      material_GetShaderProgram env m (nzShaderFlags_Deferred env OR nzShaderFlags_Instancing env),
      material_GetDiffuseMap env m, m)"

subsection \<open>Concrete instances\<close>

text \<open>
  An instance of the renderer's environment in which a matrix is a single integer, that
  is a 1x1 matrix: the three products are the product of integers and only 1 and -1 have
  an inverse. A sampler is its mipmap flag. The context is object 1, every buffer is in
  hardware, every vertex buffer has declaration 20, every program is compiled and
  declares the world-view-projection matrix alone, every target is 640 by 480.
\<close>

definition scalar_env :: "(int, bool) renderer_env" where
  "scalar_env =
     \<lparr>ctx_GetCurrent = 1,
      ib_IsHardware = (\<lambda>b. True),
      vb_IsHardware = (\<lambda>b. True),
      vb_GetVertexDeclaration = (\<lambda>b. 20),
      prog_IsCompiled = (\<lambda>p. True),
      prog_GetUniformLocation =
        (\<lambda>p u. if u = nzShaderUniform_WorldViewProjMatrix then 0 else - 1),
      target_IsRenderable = (\<lambda>t. True),
      target_Activate = (\<lambda>t. True),
      target_GetWidth = (\<lambda>t. 640),
      target_GetHeight = (\<lambda>t. 480),
      tex_HasMipmaps = (\<lambda>t. False),
      sampler_UseMipmaps = (\<lambda>m smp. (smp \<noteq> m, m)),
      gl_GenVertexArrays_result = 1,
      mat_mul = (\<lambda>a b. a * b),
      mat_ConcatenateAffine = (\<lambda>a b. a * b),
      mat_Concatenate = (\<lambda>a b. a * b),
      mat_GetInverse = (\<lambda>src dst. if src = 1 \<or> src = - 1 then (True, src) else (False, dst))\<rparr>"

text \<open>The initialised renderer with four texture units, sampler objects and vertex array objects.\<close>

definition scalar_init :: "(int, bool) renderer" where
  "scalar_init = Initialize 1 False 4 True True"

text \<open>Program 6 and target 7 bound, texture 9 on unit 0, no vertex buffer.\<close>

definition no_vertex_buffer_state :: "(int, bool) renderer" where
  "no_vertex_buffer_state =
     SetTexture scalar_env 0 9
       (snd (SetTarget scalar_env 7 (SetShaderProgram scalar_env 6 scalar_init)))"





text \<open>
  An instance of the queue's environment: nothing blends, every submesh is static.
  Material 3 has program 29 where the others have program 30; material 1 has diffuse
  map 41 where the others have 40. Submesh 2 has index buffer 12, stored in buffer 5;
  every other submesh has index buffer 11, stored in buffer 9. Instancing starts at
  three instances.
\<close>

definition demo_graphics_env :: graphics_env where
  "demo_graphics_env =
     \<lparr>light_GetLightType = (\<lambda>l. nzLightType_Point),
      material_IsBlendEnabled = (\<lambda>m. False),
      material_GetShaderProgram = (\<lambda>m f. if m = 3 then 29 else 30),
      material_GetDiffuseMap = (\<lambda>m. if m = 1 then 41 else 40),
      sprite_GetMaterial = (\<lambda>s. 1),
      subMesh_GetAnimationType = (\<lambda>s. nzAnimationType_Static),
      subMesh_GetIndexBuffer = (\<lambda>s. if s = 2 then 12 else 11),
      subMesh_GetVertexBuffer = (\<lambda>s. 50),
      indexBuffer_GetBuffer = (\<lambda>b. if b = 12 then 5 else 9),
      vertexBuffer_GetBuffer = (\<lambda>b. 60),
      nzShaderFlags_Deferred = 1,
      nzShaderFlags_Instancing = 4,
      NAZARA_GRAPHICS_INSTANCING_MIN_INSTANCES_COUNT = 3\<rparr>"

text \<open>
  Submesh 2 is submitted with material 1, then material 1 is destroyed while the
  submesh lives on.
\<close>

definition orphaned_mesh_queue :: "int render_queue" where
  "orphaned_mesh_queue =
     snd (destroy_resource 1 (AddSubMesh demo_graphics_env 1 2 10 empty_queue))"

section \<open>Properties of the renderer\<close>

subsection \<open>Evaluation and bits\<close>

lemmas eval_defs = EnsureStateUpdate_def reconcile_program_def reconcile_target_size_def
  reconcile_textures_def reconcile_matrices_def reconcile_vao_def lookup_vao_def
  resolve_locations_def matrix_uniforms_def all_matrix_types_def finish_update_def
  rebind_textures_def update_unit_sampler_objects_def update_unit_no_sampler_objects_def
  vao_key_def map_insert_def map_assign_def
  SetTexture_def SetTarget_def SetShaderProgram_def SetVertexBuffer_def SetIndexBuffer_def
  set_insert_def Initialize_def scalar_init_def scalar_env_def nullptr_def Let_def
  Update_None_def Update_Matrices_def Update_Program_def Update_Textures_def Update_VAO_def
  ResourceType_Context_def ResourceType_IndexBuffer_def ResourceType_VertexBuffer_def
  ResourceType_VertexDeclaration_def

lemma bit_Update_Matrices: "bit Update_Matrices n \<longleftrightarrow> n = 0"
  by (simp add: Update_Matrices_def bit_1_iff)

lemma bit_Update_Program: "bit Update_Program n \<longleftrightarrow> n = 1"
proof -
  have "Update_Program = 2 ^ 1" by (simp add: Update_Program_def)
  then have "bit Update_Program n \<longleftrightarrow> bit ((2 :: 32 word) ^ 1) n" by (simp only:)
  also have "\<dots> \<longleftrightarrow> n = 1" by (simp only: bit_exp_iff) (auto simp add: possible_bit_word)
  finally show ?thesis .
qed

lemma bit_Update_Textures: "bit Update_Textures n \<longleftrightarrow> n = 2"
proof -
  have "Update_Textures = 2 ^ 2" by (simp add: Update_Textures_def)
  then have "bit Update_Textures n \<longleftrightarrow> bit ((2 :: 32 word) ^ 2) n" by (simp only:)
  also have "\<dots> \<longleftrightarrow> n = 2" by (simp only: bit_exp_iff) (auto simp add: possible_bit_word)
  finally show ?thesis .
qed

lemma bit_Update_VAO: "bit Update_VAO n \<longleftrightarrow> n = 3"
proof -
  have "Update_VAO = 2 ^ 3" by (simp add: Update_VAO_def)
  then have "bit Update_VAO n \<longleftrightarrow> bit ((2 :: 32 word) ^ 3) n" by (simp only:)
  also have "\<dots> \<longleftrightarrow> n = 3" by (simp only: bit_exp_iff) (auto simp add: possible_bit_word)
  finally show ?thesis .
qed

lemmas bit_Update = bit_Update_Matrices bit_Update_Program bit_Update_Textures bit_Update_VAO

lemma and_not_absorb: "x AND m = 0 \<Longrightarrow> x AND NOT m = (x :: 32 word)"
  by (auto simp add: bit_eq_iff bit_and_iff bit_or_iff bit_not_iff)

lemma and_masked_nonzero: "(x AND NOT y) AND v \<noteq> 0 \<Longrightarrow> x AND (v :: 32 word) \<noteq> 0"
  by (auto simp add: bit_eq_iff bit_and_iff bit_or_iff bit_not_iff)

lemma clear_unset:
  "x AND p = 0 \<Longrightarrow> (x AND NOT t) AND NOT m = x AND NOT (p OR t OR (m :: 32 word))"
  by (auto simp add: bit_eq_iff bit_and_iff bit_or_iff bit_not_iff)

lemma flags_after_program_textures:
  "flags_after_program f AND Update_Textures = f AND Update_Textures"
  unfolding flags_after_program_def
  by (simp, intro impI, rule bit_eqI) (auto simp add: bit_and_iff bit_or_iff bit_not_iff bit_Update)

lemma flags_before_vao:
  "(flags_after_program f AND NOT Update_Textures) AND NOT Update_Matrices
     = f AND NOT (Update_Program OR Update_Textures OR Update_Matrices)"
proof (cases "f AND Update_Program = 0")
  case True
  with clear_unset [OF True] show ?thesis by (simp only: flags_after_program_def) simp
next
  case False
  have "(((f OR Update_Matrices) AND NOT Update_Program) AND NOT Update_Textures) AND NOT Update_Matrices
          = f AND NOT (Update_Program OR Update_Textures OR Update_Matrices)"
    by (rule bit_eqI) (auto simp add: bit_and_iff bit_or_iff bit_not_iff)
  with False show ?thesis by (simp only: flags_after_program_def) simp
qed


text \<open>
  \<open>Initialize\<close> sets category bits only, and a setter adds at most a category bit: no
  other bit of \<open>s_updateFlags\<close> is ever set.
\<close>

lemma category_bit_added:
  assumes "f AND NOT (Update_Matrices OR Update_Program OR Update_Textures OR Update_VAO) = 0"
    and "b = Update_Matrices \<or> b = Update_Program \<or> b = Update_Textures \<or> b = Update_VAO"
  shows "(f OR b) AND NOT (Update_Matrices OR Update_Program OR Update_Textures OR Update_VAO) = 0"
proof -
  have "b AND NOT (Update_Matrices OR Update_Program OR Update_Textures OR Update_VAO) = 0"
    using assms(2) by (auto simp add: bit_eq_iff bit_and_iff bit_or_iff bit_not_iff)
  with assms(1) show ?thesis
    by (simp add: bit.conj_disj_distrib2)
qed

lemma Initialize_category_bits:
  "s_updateFlags (Initialize i d n so vao)
     AND NOT (Update_Matrices OR Update_Program OR Update_Textures OR Update_VAO) = 0"
  unfolding Initialize_def
  by (simp, rule bit_eqI) (auto simp add: bit_and_iff bit_or_iff bit_not_iff)

lemma setters_category_bits:
  assumes "s_updateFlags s
             AND NOT (Update_Matrices OR Update_Program OR Update_Textures OR Update_VAO) = 0"
  shows "s_updateFlags (SetIndexBuffer env ib s)
           AND NOT (Update_Matrices OR Update_Program OR Update_Textures OR Update_VAO) = 0"
    and "s_updateFlags (SetVertexBuffer env vb s)
           AND NOT (Update_Matrices OR Update_Program OR Update_Textures OR Update_VAO) = 0"
    and "s_updateFlags (SetShaderProgram env p s)
           AND NOT (Update_Matrices OR Update_Program OR Update_Textures OR Update_VAO) = 0"
    and "s_updateFlags (EnableInstancing i s)
           AND NOT (Update_Matrices OR Update_Program OR Update_Textures OR Update_VAO) = 0"
    and "s_updateFlags (SetMatrix t m s)
           AND NOT (Update_Matrices OR Update_Program OR Update_Textures OR Update_VAO) = 0"
    and "s_updateFlags (SetTexture env u tex s)
           AND NOT (Update_Matrices OR Update_Program OR Update_Textures OR Update_VAO) = 0"
    and "s_updateFlags (SetTextureSampler env u smp s)
           AND NOT (Update_Matrices OR Update_Program OR Update_Textures OR Update_VAO) = 0"
    and "s_updateFlags (snd (SetTarget env tg s))
           AND NOT (Update_Matrices OR Update_Program OR Update_Textures OR Update_VAO) = 0"
  using assms category_bit_added [OF assms]
  by (simp_all add: SetIndexBuffer_def SetVertexBuffer_def SetShaderProgram_def
      EnableInstancing_def SetMatrix_def SetTexture_def SetTextureSampler_def SetTarget_def
      Let_def split: prod.splits)

subsection \<open>Setters\<close>

text \<open>
  C9. \<open>SetVertexBuffer\<close> with a null pointer changes nothing at all, so the bound vertex
  buffer and the update flags stay as they were. \<open>SetIndexBuffer\<close> with a null pointer
  leaves the null pointer as the bound index buffer, and marks the vertex array category
  when an index buffer was bound before.
\<close>

theorem SetVertexBuffer_null_is_noop:
  "SetVertexBuffer env nullptr s = s
   \<and> s_indexBuffer (SetIndexBuffer env nullptr s) = nullptr
   \<and> (s_indexBuffer s \<noteq> nullptr \<longrightarrow>
        s_updateFlags (SetIndexBuffer env nullptr s) = s_updateFlags s OR Update_VAO)"
  by (simp add: SetVertexBuffer_def SetIndexBuffer_def)

theorem SetVertexBuffer_null_is_noop_witness:
  "s_indexBuffer (SetIndexBuffer scalar_env 5 scalar_init) \<noteq> nullptr
   \<and> SetVertexBuffer scalar_env nullptr (SetIndexBuffer scalar_env 5 scalar_init)
       = SetIndexBuffer scalar_env 5 scalar_init
   \<and> s_updateFlags (SetIndexBuffer scalar_env nullptr (SetIndexBuffer scalar_env 5 scalar_init))
       = s_updateFlags (SetIndexBuffer scalar_env 5 scalar_init) OR Update_VAO"
proof -
  have h: "s_indexBuffer (SetIndexBuffer scalar_env 5 scalar_init) \<noteq> nullptr"
    by (simp add: SetIndexBuffer_def scalar_env_def scalar_init_def Initialize_def nullptr_def)
  show ?thesis
    using h SetVertexBuffer_null_is_noop [of scalar_env "SetIndexBuffer scalar_env 5 scalar_init"]
    by simp
qed

text \<open>
  C10. For a texture unit within range, \<open>SetTexture\<close> with the texture the unit already
  holds returns the state it was given: no field of any texture unit, the set of dirty
  units and the update flags included, is touched. Hence setting the same texture twice
  in a row is the same as setting it once.
\<close>

theorem SetTexture_same_texture:
  assumes "unat u < s_maxTextureUnit s"
    and "s_maxTextureUnit s \<le> length (s_textureUnits s)"
  shows "(texture (s_textureUnits s ! unat u) = t \<longrightarrow> SetTexture env u t s = s)
         \<and> SetTexture env u t (SetTexture env u t s) = SetTexture env u t s"
proof -
  have a: "texture (s_textureUnits r ! unat u) = t \<Longrightarrow> SetTexture env u t r = r"
    for r :: "('a, 'b) renderer"
    by (simp add: SetTexture_def Let_def)
  have b: "texture (s_textureUnits (SetTexture env u t s) ! unat u) = t"
    using assms by (auto simp add: SetTexture_def Let_def split: prod.splits)
  from a [of s] a [OF b] show ?thesis
    by simp
qed

theorem SetTexture_same_texture_witness:
  "unat (0 :: 8 word) < s_maxTextureUnit (SetTexture scalar_env 0 9 scalar_init)
   \<and> s_maxTextureUnit (SetTexture scalar_env 0 9 scalar_init)
       \<le> length (s_textureUnits (SetTexture scalar_env 0 9 scalar_init))
   \<and> texture (s_textureUnits (SetTexture scalar_env 0 9 scalar_init) ! unat (0 :: 8 word)) = 9
   \<and> SetTexture scalar_env 0 9 (SetTexture scalar_env 0 9 scalar_init)
       = SetTexture scalar_env 0 9 scalar_init"
proof -
  have h1: "unat (0 :: 8 word) < s_maxTextureUnit (SetTexture scalar_env 0 9 scalar_init)"
    by (simp add: eval_defs)
  have h2: "s_maxTextureUnit (SetTexture scalar_env 0 9 scalar_init)
              \<le> length (s_textureUnits (SetTexture scalar_env 0 9 scalar_init))"
    by (simp add: eval_defs)
  have h3: "texture (s_textureUnits (SetTexture scalar_env 0 9 scalar_init) ! unat (0 :: 8 word)) = 9"
    by (simp add: eval_defs)
  show ?thesis
    using h1 h2 h3 SetTexture_same_texture [OF h1 h2, of 9 scalar_env]
    by simp
qed

subsection \<open>Matrix slots\<close>

text \<open>Which slots are marked as updated after \<open>SetMatrix\<close>.\<close>

lemma SetMatrix_updated:
  "updated (s_matrices (SetMatrix t m s) t') =
     (if t' \<in> set (invalidated_by t) then False
      else if t' = t then True else updated (s_matrices s t'))"
  by (cases t; cases t') (simp_all add: SetMatrix_def invalidate_def Let_def)

text \<open>
  C1. The slots a base matrix invalidates should be those that depend on it. For the view
  matrix they are not: \<open>SetMatrix\<close> clears the flags of the world matrix and of its
  inverse, and leaves those of the world-view matrix and of its inverse alone. After
  initialisation, with every slot the identity 1, setting the view matrix to 2 leaves the
  world-view slot marked as updated; \<open>GetMatrix\<close> then returns the cached 1, while
  recomputing the slot from the current world and view matrices gives 2.
\<close>

theorem SetMatrix_View_serves_stale_WorldView:
  "nzMatrixType_WorldView \<notin> set (invalidated_by nzMatrixType_View)
   \<and> nzMatrixType_World \<in> set (invalidated_by nzMatrixType_View)
   \<and> updated (s_matrices (SetMatrix nzMatrixType_View 2 scalar_init) nzMatrixType_WorldView)
   \<and> fst (GetMatrix scalar_env nzMatrixType_WorldView
            (SetMatrix nzMatrixType_View 2 scalar_init)) = 1
   \<and> matrix (UpdateMatrix scalar_env nzMatrixType_WorldView
               (s_matrices (SetMatrix nzMatrixType_View 2 scalar_init)) nzMatrixType_WorldView) = 2"
  by (simp add: GetMatrix_def SetMatrix_def invalidate_def Let_def scalar_init_def
      Initialize_def scalar_env_def)

subsection \<open>Reconciliation\<close>

lemma reconcile_program_fields [simp]:
  "s_vertexBuffer (fst (reconcile_program env s)) = s_vertexBuffer s"
  "s_dirtyTextureUnits (fst (reconcile_program env s)) = s_dirtyTextureUnits s"
  "s_useVertexArrayObjects (fst (reconcile_program env s)) = s_useVertexArrayObjects s"
  "s_program (fst (reconcile_program env s)) = s_program s"
  "s_target (fst (reconcile_program env s)) = s_target s"
  "s_updateFlags (fst (reconcile_program env s)) = flags_after_program (s_updateFlags s)"
  by (simp_all add: reconcile_program_def flags_after_program_def)

lemma reconcile_target_size_fields [simp]:
  "s_vertexBuffer (fst (reconcile_target_size env s)) = s_vertexBuffer s"
  "s_dirtyTextureUnits (fst (reconcile_target_size env s)) = s_dirtyTextureUnits s"
  "s_useVertexArrayObjects (fst (reconcile_target_size env s)) = s_useVertexArrayObjects s"
  "s_program (fst (reconcile_target_size env s)) = s_program s"
  "s_target (fst (reconcile_target_size env s)) = s_target s"
  "s_updateFlags (fst (reconcile_target_size env s)) = s_updateFlags s"
  "s_targetSize (fst (reconcile_target_size env s))
     = (target_GetWidth env (s_target s), target_GetHeight env (s_target s))"
  by (simp_all add: reconcile_target_size_def Let_def)

lemma reconcile_textures_fields [simp]:
  "s_vertexBuffer (fst (reconcile_textures s)) = s_vertexBuffer s"
  "s_dirtyTextureUnits (fst (reconcile_textures s))
     = (if s_updateFlags s AND Update_Textures \<noteq> 0 then [] else s_dirtyTextureUnits s)"
  "s_useVertexArrayObjects (fst (reconcile_textures s)) = s_useVertexArrayObjects s"
  "s_program (fst (reconcile_textures s)) = s_program s"
  "s_target (fst (reconcile_textures s)) = s_target s"
  "s_targetSize (fst (reconcile_textures s)) = s_targetSize s"
  "s_updateFlags (fst (reconcile_textures s)) = s_updateFlags s AND NOT Update_Textures"
  by (simp_all add: reconcile_textures_def Let_def and_not_absorb)

lemma reconcile_matrices_fields [simp]:
  "s_vertexBuffer (fst (reconcile_matrices env s)) = s_vertexBuffer s"
  "s_dirtyTextureUnits (fst (reconcile_matrices env s)) = s_dirtyTextureUnits s"
  "s_useVertexArrayObjects (fst (reconcile_matrices env s)) = s_useVertexArrayObjects s"
  "s_program (fst (reconcile_matrices env s)) = s_program s"
  "s_target (fst (reconcile_matrices env s)) = s_target s"
  "s_targetSize (fst (reconcile_matrices env s)) = s_targetSize s"
  "s_updateFlags (fst (reconcile_matrices env s)) = s_updateFlags s AND NOT Update_Matrices"
  by (simp_all add: reconcile_matrices_def Let_def and_not_absorb)

lemma lookup_vao_fields [simp]:
  "s_useVertexArrayObjects (fst (snd (lookup_vao env s))) = s_useVertexArrayObjects s"
  "s_program (fst (snd (lookup_vao env s))) = s_program s"
  "s_target (fst (snd (lookup_vao env s))) = s_target s"
  "s_targetSize (fst (snd (lookup_vao env s))) = s_targetSize s"
  "s_updateFlags (fst (snd (lookup_vao env s))) = s_updateFlags s"
  by (simp_all add: lookup_vao_def Let_def split: option.splits)


lemma before_categories_fields [simp]:
  "s_vertexBuffer (before_categories env s) = s_vertexBuffer s"
  "s_dirtyTextureUnits (before_categories env s) = s_dirtyTextureUnits s"
  "s_useVertexArrayObjects (before_categories env s) = s_useVertexArrayObjects s"
  "s_program (before_categories env s) = s_program s"
  "s_target (before_categories env s) = s_target s"
  "s_updateFlags (before_categories env s) = flags_after_program (s_updateFlags s)"
  "s_targetSize (before_categories env s)
     = (target_GetWidth env (s_target s), target_GetHeight env (s_target s))"
  by (simp_all add: before_categories_def)

lemma before_vao_fields [simp]:
  "s_vertexBuffer (before_vao env s) = s_vertexBuffer s"
  "s_dirtyTextureUnits (before_vao env s)
     = (if s_updateFlags s AND Update_Textures \<noteq> 0 then [] else s_dirtyTextureUnits s)"
  "s_useVertexArrayObjects (before_vao env s) = s_useVertexArrayObjects s"
  "s_program (before_vao env s) = s_program s"
  "s_target (before_vao env s) = s_target s"
  "s_updateFlags (before_vao env s)
     = s_updateFlags s AND NOT (Update_Program OR Update_Textures OR Update_Matrices)"
  "s_targetSize (before_vao env s)
     = (target_GetWidth env (s_target s), target_GetHeight env (s_target s))"
  by (simp_all only: before_vao_def reconcile_matrices_fields reconcile_textures_fields
      before_categories_fields flags_after_program_textures flags_before_vao)

lemma reconcile_vao_fails:
  "\<not> fst (reconcile_vao env s) \<Longrightarrow> s_vertexBuffer s = nullptr \<and> fst (snd (reconcile_vao env s)) = s"
  by (simp add: reconcile_vao_def Let_def split: if_splits)

text \<open>The result and the final state of \<open>EnsureStateUpdate\<close> once its three checks have passed.\<close>

lemma EnsureStateUpdate_unfold:
  assumes "ctx_GetCurrent env \<noteq> nullptr" and "s_program s \<noteq> nullptr" and "s_target s \<noteq> nullptr"
  shows "fst (EnsureStateUpdate env s) =
           (if s_updateFlags (before_categories env s) \<noteq> Update_None
               \<and> s_updateFlags (before_vao env s) AND Update_VAO \<noteq> 0
            then fst (reconcile_vao env (before_vao env s)) else True)"
    and "fst (snd (EnsureStateUpdate env s)) =
           (if s_updateFlags (before_categories env s) \<noteq> Update_None
            then if s_updateFlags (before_vao env s) AND Update_VAO \<noteq> 0
                 then fst (snd (reconcile_vao env (before_vao env s)))
                 else before_vao env s
            else before_categories env s)"
  using assms
  by (simp_all add: EnsureStateUpdate_def Let_def before_vao_def before_categories_def
      split: prod.splits)

lemma EnsureStateUpdate_failure:
  assumes "\<not> fst (EnsureStateUpdate env s)"
  shows "(ctx_GetCurrent env = nullptr \<or> s_program s = nullptr \<or> s_target s = nullptr)
           \<and> fst (snd (EnsureStateUpdate env s)) = s
         \<or> ctx_GetCurrent env \<noteq> nullptr \<and> s_program s \<noteq> nullptr \<and> s_target s \<noteq> nullptr
           \<and> s_vertexBuffer (before_vao env s) = nullptr
           \<and> s_updateFlags (before_vao env s) AND Update_VAO \<noteq> 0
           \<and> fst (snd (EnsureStateUpdate env s)) = before_vao env s"
proof (cases "ctx_GetCurrent env = nullptr \<or> s_program s = nullptr \<or> s_target s = nullptr")
  case True
  then show ?thesis by (auto simp add: EnsureStateUpdate_def)
next
  case False
  then have p: "ctx_GetCurrent env \<noteq> nullptr" "s_program s \<noteq> nullptr" "s_target s \<noteq> nullptr"
    by simp_all
  have f: "\<not> fst (reconcile_vao env (before_vao env s))
           \<and> s_updateFlags (before_vao env s) AND Update_VAO \<noteq> 0
           \<and> fst (snd (EnsureStateUpdate env s)) = fst (snd (reconcile_vao env (before_vao env s)))"
    using assms EnsureStateUpdate_unfold [OF p]
    by (simp split: if_splits)
  with reconcile_vao_fails [of env "before_vao env s"] p show ?thesis
    by simp
qed

text \<open>
  C2, as amended. When \<open>EnsureStateUpdate\<close> fails because there is no active context, no
  shader program or no render target, the whole state, hence the update flags and the set
  of dirty texture units, is what it was when the call started. When it fails otherwise,
  no vertex buffer is bound and the vertex array bit is set; that bit is still set
  afterwards, while the program, texture and matrix bits are cleared and the set of dirty
  texture units is empty if the texture bit was set: the categories reconciled before the
  vertex array category stay reconciled.
\<close>

theorem EnsureStateUpdate_failure_flags:
  assumes "\<not> fst (EnsureStateUpdate env s)"
  shows "(ctx_GetCurrent env = nullptr \<or> s_program s = nullptr \<or> s_target s = nullptr
            \<longrightarrow> fst (snd (EnsureStateUpdate env s)) = s)
         \<and> (ctx_GetCurrent env \<noteq> nullptr \<and> s_program s \<noteq> nullptr \<and> s_target s \<noteq> nullptr
            \<longrightarrow> s_vertexBuffer s = nullptr
              \<and> s_updateFlags s AND Update_VAO \<noteq> 0
              \<and> s_updateFlags (fst (snd (EnsureStateUpdate env s))) =
                  s_updateFlags s AND NOT (Update_Program OR Update_Textures OR Update_Matrices)
              \<and> s_dirtyTextureUnits (fst (snd (EnsureStateUpdate env s))) =
                  (if s_updateFlags s AND Update_Textures \<noteq> 0 then [] else s_dirtyTextureUnits s))"
proof -
  have v: "s_updateFlags (before_vao env s) AND Update_VAO \<noteq> 0 \<Longrightarrow> s_updateFlags s AND Update_VAO \<noteq> 0"
    by (simp only: before_vao_fields) (rule and_masked_nonzero)
  from EnsureStateUpdate_failure [OF assms] show ?thesis
  proof
    assume "(ctx_GetCurrent env = nullptr \<or> s_program s = nullptr \<or> s_target s = nullptr)
             \<and> fst (snd (EnsureStateUpdate env s)) = s"
    then show ?thesis by auto
  next
    assume a: "ctx_GetCurrent env \<noteq> nullptr \<and> s_program s \<noteq> nullptr \<and> s_target s \<noteq> nullptr
           \<and> s_vertexBuffer (before_vao env s) = nullptr
           \<and> s_updateFlags (before_vao env s) AND Update_VAO \<noteq> 0
           \<and> fst (snd (EnsureStateUpdate env s)) = before_vao env s"
    then have "s_updateFlags s AND Update_VAO \<noteq> 0" using v by blast
    with a show ?thesis by (simp only: before_vao_fields) simp
  qed
qed

theorem EnsureStateUpdate_failure_flags_witness:
  "\<not> fst (EnsureStateUpdate scalar_env scalar_init)
   \<and> s_program scalar_init = nullptr
   \<and> fst (snd (EnsureStateUpdate scalar_env scalar_init)) = scalar_init
   \<and> \<not> fst (EnsureStateUpdate scalar_env no_vertex_buffer_state)
   \<and> ctx_GetCurrent scalar_env \<noteq> nullptr
   \<and> s_program no_vertex_buffer_state \<noteq> nullptr
   \<and> s_target no_vertex_buffer_state \<noteq> nullptr
   \<and> s_vertexBuffer no_vertex_buffer_state = nullptr
   \<and> s_updateFlags no_vertex_buffer_state AND Update_VAO \<noteq> 0
   \<and> s_updateFlags no_vertex_buffer_state AND Update_Textures \<noteq> 0
   \<and> s_updateFlags (fst (snd (EnsureStateUpdate scalar_env no_vertex_buffer_state))) =
       s_updateFlags no_vertex_buffer_state
         AND NOT (Update_Program OR Update_Textures OR Update_Matrices)
   \<and> s_dirtyTextureUnits (fst (snd (EnsureStateUpdate scalar_env no_vertex_buffer_state))) = []"
proof -
  have h1: "\<not> fst (EnsureStateUpdate scalar_env scalar_init)"
    by (simp add: eval_defs)
  have p1: "s_program scalar_init = nullptr"
    by (simp add: eval_defs)
  have h2: "\<not> fst (EnsureStateUpdate scalar_env no_vertex_buffer_state)"
    by (simp add: no_vertex_buffer_state_def eval_defs)
  have p2: "ctx_GetCurrent scalar_env \<noteq> nullptr \<and> s_program no_vertex_buffer_state \<noteq> nullptr
            \<and> s_target no_vertex_buffer_state \<noteq> nullptr"
    by (simp add: no_vertex_buffer_state_def eval_defs)
  have t: "s_updateFlags no_vertex_buffer_state AND Update_Textures \<noteq> 0"
    by (simp add: no_vertex_buffer_state_def eval_defs)
  show ?thesis
    using h1 p1 h2 p2 t
      EnsureStateUpdate_failure_flags [OF h1] EnsureStateUpdate_failure_flags [OF h2]
    by simp
qed

text \<open>
  With program 6 and target 7 bound, texture 9 set on unit 0 and no vertex buffer, the
  call fails, yet the update flags go from 15 to 8 and the set of dirty texture units
  from unit 0 alone to nothing.
\<close>

theorem EnsureStateUpdate_failure_changes_flags:
  "\<not> fst (EnsureStateUpdate scalar_env no_vertex_buffer_state)
   \<and> s_updateFlags no_vertex_buffer_state = 15
   \<and> s_updateFlags (fst (snd (EnsureStateUpdate scalar_env no_vertex_buffer_state))) = 8
   \<and> s_dirtyTextureUnits no_vertex_buffer_state = [0]
   \<and> s_dirtyTextureUnits (fst (snd (EnsureStateUpdate scalar_env no_vertex_buffer_state))) = []"
  by (simp add: no_vertex_buffer_state_def eval_defs)




subsection \<open>The cache of vertex arrays\<close>












section \<open>Properties of the render queue\<close>

subsection \<open>Batching\<close>





subsection \<open>Clearing\<close>

text \<open>The shallow form empties the three lists of lights and forwards the flag.\<close>

lemma Clear_shallow:
  "opaqueModels (Clear False q) = opaqueModels q
   \<and> sprites (Clear False q) = sprites q
   \<and> listeners (Clear False q) = listeners q
   \<and> directionalLights (Clear False q) = []
   \<and> pointLights (Clear False q) = []
   \<and> spotLights (Clear False q) = []
   \<and> m_forwardQueue (Clear False q) = m_forwardQueue q @ [Forward_Clear False]"
  by (simp add: Clear_def Let_def)

lemma map_of_remove:
  "map_of (Resource_RemoveResourceListener a ls) r = (if r = a then None else map_of ls r)"
  by (induction ls) (auto simp add: Resource_RemoveResourceListener_def map_erase_def)

lemma map_of_fold_remove:
  "map_of (fold Resource_RemoveResourceListener rs ls) r
     = (if r \<in> set rs then None else map_of ls r)"
  by (induction rs arbitrary: ls) (simp_all add: map_of_remove)

text \<open>
  The full form also empties the two tables and deregisters the queue from the materials
  and meshes that are in the table of opaque models, and from those only.
\<close>

lemma Clear_fully:
  "opaqueModels (Clear True q) = []
   \<and> sprites (Clear True q) = []
   \<and> directionalLights (Clear True q) = []
   \<and> pointLights (Clear True q) = []
   \<and> spotLights (Clear True q) = []
   \<and> m_forwardQueue (Clear True q) = m_forwardQueue q @ [Forward_Clear True]
   \<and> map_of (listeners (Clear True q)) r
       = (if r \<in> set (table_resources (opaqueModels q)) then None else map_of (listeners q) r)"
  by (simp add: Clear_def Let_def map_of_fold_remove)

text \<open>
  C8. After \<open>Clear(true)\<close> no destruction of a resource the queue was registered on should
  reach the queue. It can: submesh 2 is submitted with material 1, which registers the
  queue on both, and material 1 is destroyed, which erases its entry, and with it the
  only place where submesh 2 is recorded, while the queue stays registered on submesh 2.
  \<open>Clear(true)\<close> then empties the table but finds no submesh to deregister from; the
  queue is still registered on submesh 2, and destroying submesh 2 invokes the callback.
\<close>

theorem Clear_fully_leaves_listener:
  "opaqueModels (Clear True orphaned_mesh_queue) = []
   \<and> listeners (Clear True orphaned_mesh_queue) = [(2, ResourceType_StaticMesh)]
   \<and> fst (destroy_resource 2 (Clear True orphaned_mesh_queue))"
  by (simp add: orphaned_mesh_queue_def destroy_resource_def AddSubMesh_def demo_graphics_env_def
      empty_queue_def map_insert_def map_assign_def map_erase_def new_batch_entry_def Let_def
      Resource_AddResourceListener_def Resource_RemoveResourceListener_def
      OnResourceReleased_def OnResourceDestroy_def Clear_def table_resources_def
      ResourceType_Material_def ResourceType_StaticMesh_def ResourceType_SkeletalMesh_def)

subsection \<open>Comparators\<close>

text \<open>The comparator of static meshes is the three-stage order.\<close>

lemma static_comparator_three_stage:
  "BatchedStaticMeshComparator env a b = three_stage_mesh_order env a b"
  by (simp add: three_stage_mesh_order_def index_storage_def vertex_storage_def
      BatchedStaticMeshComparator_def Let_def)

text \<open>
  The comparator of skeletal meshes reads the index buffer of the first submesh twice,
  so its two buffers are always equal and it compares the addresses of the submeshes.
\<close>

lemma skeletal_comparator_is_address_order:
  "BatchedSkeletalMeshComparator env a b = (a < b)"
  by (simp add: BatchedSkeletalMeshComparator_def Let_def)

text \<open>
  C3. Both comparators should be the three-stage order. The comparator of skeletal meshes
  is not: submesh 2 has its indices in buffer 5 and submesh 1 has them in buffer 9, so
  submesh 2 comes first in the three-stage order, and the comparator of static meshes
  says so, but the comparator of skeletal meshes says it does not.
\<close>

theorem skeletal_comparator_ignores_buffers:
  "three_stage_mesh_order demo_graphics_env 2 1
   \<and> BatchedStaticMeshComparator demo_graphics_env 2 1
   \<and> \<not> BatchedSkeletalMeshComparator demo_graphics_env 2 1"
  by (simp add: three_stage_mesh_order_def index_storage_def vertex_storage_def
      BatchedStaticMeshComparator_def BatchedSkeletalMeshComparator_def demo_graphics_env_def
      nullptr_def Let_def)

text \<open>The material comparator is the lexicographic order of what it looks at.\<close>

lemma comparator_lex:
  "BatchedModelMaterialComparator env a b =
     (case (material_key env a, material_key env b) of
        ((p1, q1, d1, m1), (p2, q2, d2, m2)) \<Rightarrow>
          p1 < p2 \<or> (p1 = p2 \<and> (q1 < q2 \<or> (q1 = q2 \<and> (d1 < d2 \<or> (d1 = d2 \<and> m1 < m2))))))"
  by (auto simp add: BatchedModelMaterialComparator_def material_key_def Let_def)

text \<open>
  C7. The material comparator is a strict total order on materials: no material comes
  before itself, the order is transitive, and of two distinct materials exactly one comes
  before the other.
\<close>

theorem material_comparator_strict_total_order:
  "\<not> BatchedModelMaterialComparator env a a
   \<and> (BatchedModelMaterialComparator env a b \<and> BatchedModelMaterialComparator env b c
        \<longrightarrow> BatchedModelMaterialComparator env a c)
   \<and> (a \<noteq> b \<longrightarrow>
        (BatchedModelMaterialComparator env a b \<longleftrightarrow> \<not> BatchedModelMaterialComparator env b a))"
  unfolding comparator_lex material_key_def by (simp; linarith)

theorem material_comparator_strict_total_order_witness:
  "BatchedModelMaterialComparator demo_graphics_env 3 2
   \<and> BatchedModelMaterialComparator demo_graphics_env 2 1
   \<and> BatchedModelMaterialComparator demo_graphics_env 3 1
   \<and> (3 :: nat) \<noteq> 2
   \<and> \<not> BatchedModelMaterialComparator demo_graphics_env 2 3
   \<and> \<not> BatchedModelMaterialComparator demo_graphics_env 3 3"
proof -
  have h: "BatchedModelMaterialComparator demo_graphics_env 3 2"
      "BatchedModelMaterialComparator demo_graphics_env 2 1"
    by (simp_all add: BatchedModelMaterialComparator_def demo_graphics_env_def Let_def)
  show ?thesis
    using h material_comparator_strict_total_order [of demo_graphics_env 3 2 1]
    by simp
qed

end
